theory Spec2Isabelle
  imports Complex_Main
begin

section \<open>Values of the JSON library\<close>

text \<open>
  The program exchanges data with \<^verbatim>\<open>json.dumps\<close> and \<^verbatim>\<open>json.loads\<close>. The values
  these two functions accept and produce are Python's \<^verbatim>\<open>None\<close>, booleans, integers,
  floats, strings, lists and dictionaries with string keys. A finite float is its real
  value; the three constants \<^verbatim>\<open>Infinity\<close>, \<^verbatim>\<open>-Infinity\<close> and \<^verbatim>\<open>NaN\<close> that the
  Python decoder accepts are \<open>JSpecial\<close>. A dictionary is an association list in
  insertion order. A Python string is a list of characters; the model is exact on
  ASCII text.
\<close>

datatype special = PosInf | NegInf | NaN

datatype json =
    JNull
  | JBool bool
  | JInt int
  | JFloat real
  | JSpecial special
  | JStr string
  | JArr "json list"
  | JObj "(string \<times> json) list"

text \<open>The exceptions that the orchestrator's own statements can raise.\<close>

datatype error = KeyError | TypeError | AttributeError | JSONDecodeError

text \<open>
  \<^verbatim>\<open>d.get(key, default)\<close>: only a dictionary has the method; on any other value the
  attribute lookup raises.
\<close>

fun dict_get :: "json \<Rightarrow> string \<Rightarrow> json \<Rightarrow> error + json" where
  "dict_get (JObj kvs) k d = Inr (case map_of kvs k of None \<Rightarrow> d | Some v \<Rightarrow> v)"
| "dict_get _ k d = Inl AttributeError"

text \<open>
  What iterating over a value yields: the elements of a list, the one-character strings
  of a string, the keys of a dictionary. Every other value is not iterable.
\<close>

fun iter :: "json \<Rightarrow> error + json list" where
  "iter (JArr xs) = Inr xs"
| "iter (JStr s) = Inr (map (\<lambda>c. JStr [c]) s)"
| "iter (JObj kvs) = Inr (map (\<lambda>kv. JStr (fst kv)) kvs)"
| "iter _ = Inl TypeError"

text \<open>\<^verbatim>\<open>xs.extend(v)\<close>: a value that is not iterable raises before \<open>xs\<close> is touched.\<close>

definition list_extend :: "json list \<Rightarrow> json \<Rightarrow> error + json list" where
  "list_extend xs v = (case iter v of Inl err \<Rightarrow> Inl err | Inr ys \<Rightarrow> Inr (xs @ ys))"

text \<open>
  Python's \<^verbatim>\<open>==\<close> on the hashable values: booleans, integers and floats are compared
  as numbers (\<^verbatim>\<open>True == 1 == 1.0\<close>), everything else by constructor and content.
  \<open>py_key\<close> maps a value to the representative of its equality class. Lists and
  dictionaries are not hashable.
\<close>

fun py_key :: "json \<Rightarrow> json" where
  "py_key (JBool b) = JFloat (if b then 1 else 0)"
| "py_key (JInt i) = JFloat (of_int i)"
| "py_key v = v"

definition py_eq :: "json \<Rightarrow> json \<Rightarrow> bool" where
  "py_eq x y = (py_key x = py_key y)"

fun hashable :: "json \<Rightarrow> bool" where
  "hashable (JArr xs) = False"
| "hashable (JObj kvs) = False"
| "hashable _ = True"

text \<open>
  \<^verbatim>\<open>list(set(xs))\<close>: \<^verbatim>\<open>set\<close> inserts the elements one by one and keeps the first of
  each equality class; an element that is not hashable raises \<^verbatim>\<open>TypeError\<close>. The
  order in which Python lists the set is unspecified; the model lists it in insertion
  order.
\<close>

definition set_add :: "json list \<Rightarrow> json \<Rightarrow> json list" where
  "set_add s x = (if list_ex (\<lambda>y. py_eq y x) s then s else s @ [x])"

definition list_set :: "json list \<Rightarrow> error + json list" where
  "list_set xs = (if list_all hashable xs then Inr (foldl set_add [] xs) else Inl TypeError)"

section \<open>The environment\<close>

text \<open>
  A message of the chat exchange is the dictionary \<^verbatim>\<open>{"role": ..., "content": ...}\<close>.
\<close>

type_synonym message = "(string \<times> string) list"

text \<open>
  Modelled from the spec: the chunk type of the model endpoint's response stream, which
  belongs to the client library. Each chunk optionally carries a reasoning-channel
  delta and an answer-channel delta; they are what the program reads as
  \<^verbatim>\<open>chunk.choices[0].delta.reasoning_content\<close> (an attribute that may be missing)
  and \<^verbatim>\<open>chunk.choices[0].delta.content\<close>.
\<close>

record delta =
  reasoning_content :: "string option"
  content :: "string option"

text \<open>
  What the program calls and does not define: the two functions of the JSON library,
  the model endpoint and the clock. \<open>json_loads\<close> is \<open>None\<close> where \<^verbatim>\<open>json.loads\<close>
  raises, which is where the text is not valid JSON. The endpoint and the clock
  answer differently from one call to the next, so they take the number of model
  calls made before; the endpoint also takes the model name and the messages it is sent.
  A transport or API failure aborts the whole call in the client library; the model
  covers the calls in which the endpoint answers.
\<close>

record env =
  json_dumps :: "json \<Rightarrow> string"
  json_loads :: "string \<Rightarrow> json option"
  completions_create :: "nat \<Rightarrow> string \<Rightarrow> message list \<Rightarrow> delta list"
  datetime_now :: "nat \<Rightarrow> string"

section \<open>Agents and the turn executor\<close>

text \<open>
  The four subclasses of \<^verbatim>\<open>BaseAgent\<close>. The base class itself, whose
  \<^verbatim>\<open>get_system_prompt\<close> raises, is never instantiated. An agent's \<^verbatim>\<open>memory\<close>
  list is never read or written and its \<^verbatim>\<open>client\<close> is the endpoint of the
  environment.
\<close>

datatype agent_class =
  CareerResearchAgent | ScenarioDesignerAgent | EvaluationAgent | NarratorAgent

record base_agent =
  cls :: agent_class
  model :: string
  role :: string

abbreviation nl :: string where
  "nl \<equiv> [CHR 0x0A]"

fun get_system_prompt :: "agent_class \<Rightarrow> string" where
  \<open>get_system_prompt CareerResearchAgent =
     ''You are a Career Research Agent. Your job:'' @ nl @
     ''1. DECIDE if you have enough information about the career to create realistic scenarios'' @ nl @
     ''2. If NOT, identify WHAT specific information you need (typical day, common challenges, required skills, tools used)'' @ nl @
     ''3. Output your decision and reasoning'' @ nl @
     nl @
     ''Use /think to analyze what's known vs needed. Output JSON:'' @ nl @
     ''{"needs_research": true/false, "missing_info": [...], "known_info": {...}}''\<close>
| \<open>get_system_prompt ScenarioDesignerAgent =
     ''You are a Scenario Designer Agent. Create realistic, challenging scenarios for career simulations.'' @ nl @
     nl @
     ''For each scenario, include:'' @ nl @
     ''- Realistic problem/situation'' @ nl @
     ''- 3-4 decision options with trade-offs'' @ nl @
     ''- Hidden complexity that reveals career realities'' @ nl @
     nl @
     ''Use /think to ensure authenticity. Output JSON:'' @ nl @
     ''{"scenario": "...", "options": [...], "learning_goal": "..."}''\<close>
| \<open>get_system_prompt EvaluationAgent =
     ''You are an Evaluation Agent. Analyze user decisions in career scenarios.'' @ nl @
     nl @
     ''Consider:'' @ nl @
     ''- Immediate consequences'' @ nl @
     ''- Long-term implications'' @ nl @
     ''- What professionals would actually do'' @ nl @
     ''- Skills demonstrated (or lacking)'' @ nl @
     nl @
     ''Use /think to reason about realistic outcomes. Output JSON:'' @ nl @
     ''{"consequence": "...", "skills_used": [...], "professional_insight": "..."}''\<close>
| \<open>get_system_prompt NarratorAgent =
     ''You are a Narrator Agent. Transform scenario data into immersive storytelling.'' @ nl @
     nl @
     ''Make it feel real and engaging while being educational. Keep responses 2-3 paragraphs.'' @ nl @
     ''Use /think to craft compelling narrative that teaches.''\<close>

text \<open>
  \<^verbatim>\<open>_format_prompt\<close>: \<^verbatim>\<open>if context\<close> is false for \<^verbatim>\<open>None\<close> and for the empty
  dictionary.
\<close>

definition format_prompt :: "env \<Rightarrow> string \<Rightarrow> (string \<times> json) list option \<Rightarrow> string" where
  "format_prompt e prompt context =
     (case context of
        None \<Rightarrow> prompt
      | Some [] \<Rightarrow> prompt
      | Some (kv # kvs) \<Rightarrow>
          ''Context: '' @ json_dumps e (JObj (kv # kvs)) @ nl @ nl @ ''Task: '' @ prompt)"

text \<open>
  The loop of \<^verbatim>\<open>_call_model\<close> over the chunks of the stream, with its two
  accumulators. \<^verbatim>\<open>if r\<close> is false for a missing delta and for the empty string.
\<close>

fun accumulate :: "delta list \<Rightarrow> string \<Rightarrow> string \<Rightarrow> string \<times> string" where
  "accumulate [] reasoning cont = (reasoning, cont)"
| "accumulate (chunk # chunks) reasoning cont =
     (let r = reasoning_content chunk;
          reasoning' = (case r of None \<Rightarrow> reasoning
                        | Some t \<Rightarrow> if t \<noteq> [] then reasoning @ t else reasoning);
          cont' = (case content chunk of None \<Rightarrow> cont
                   | Some t \<Rightarrow> if t \<noteq> [] then cont @ t else cont)
      in accumulate chunks reasoning' cont')"

text \<open>
  \<^verbatim>\<open>_call_model\<close> returns the dictionary \<^verbatim>\<open>{"reasoning": ..., "content": ...}\<close>, here
  the pair of its two values. \<open>n\<close> is the number of model calls made before.
\<close>

definition call_model :: "env \<Rightarrow> base_agent \<Rightarrow> message list \<Rightarrow> nat \<Rightarrow> string \<times> string" where
  "call_model e a messages n =
     (let completion = completions_create e n (model a) messages
      in accumulate completion [] [])"

text \<open>The result of one turn, the dictionary that \<^verbatim>\<open>think_and_act\<close> returns.\<close>

record turn =
  agent :: string
  reasoning :: string
  action :: string
  timestamp :: string

definition build_messages ::
  "env \<Rightarrow> base_agent \<Rightarrow> string \<Rightarrow> (string \<times> json) list option \<Rightarrow> message list" where
  "build_messages e a prompt context =
     [[(''role'', ''system''), (''content'', get_system_prompt (cls a))],
      [(''role'', ''user''), (''content'', format_prompt e prompt context)]]"

definition think_and_act ::
  "env \<Rightarrow> base_agent \<Rightarrow> string \<Rightarrow> (string \<times> json) list option \<Rightarrow> nat \<Rightarrow> turn \<times> nat" where
  "think_and_act e a prompt context n =
     (let messages = build_messages e a prompt context;
          response = call_model e a messages n
      in (\<lparr>agent = role a,
           reasoning = fst response,
           action = snd response,
           timestamp = datetime_now e n\<rparr>,
          Suc n))"

section \<open>The orchestrator\<close>

text \<open>
  \<^verbatim>\<open>career_knowledge\<close> is the empty dictionary until \<^verbatim>\<open>start_simulation\<close> assigns
  the four-key dictionary below; \<open>None\<close> is the empty dictionary.
\<close>

record knowledge =
  career :: string
  researched :: bool
  typical_challenges :: string
  tools :: string

text \<open>
  \<^verbatim>\<open>scenarios_completed\<close> starts at 0 and is only ever incremented, so it is a
  natural number. \<^verbatim>\<open>skills_demonstrated\<close> holds whatever the evaluator's answer
  listed, \<^verbatim>\<open>current_scenario\<close> is \<^verbatim>\<open>None\<close> or the designer's last turn.
\<close>

record sim_state =
  time :: string
  scenarios_completed :: nat
  skills_demonstrated :: "json list"
  current_scenario :: "turn option"

record simulator =
  research_agent :: base_agent
  scenario_agent :: base_agent
  evaluator :: base_agent
  narrator :: base_agent
  career_knowledge :: "knowledge option"
  simulation_state :: sim_state
  agent_log :: "turn list"

text \<open>The dictionaries that the orchestrator passes as context, as JSON values.\<close>

definition turn_dict :: "turn \<Rightarrow> (string \<times> json) list" where
  "turn_dict t =
     [(''agent'', JStr (agent t)), (''reasoning'', JStr (reasoning t)),
      (''action'', JStr (action t)), (''timestamp'', JStr (timestamp t))]"

definition knowledge_dict :: "knowledge \<Rightarrow> (string \<times> json) list" where
  "knowledge_dict k =
     [(''career'', JStr (career k)), (''researched'', JBool (researched k)),
      (''typical_challenges'', JStr (typical_challenges k)), (''tools'', JStr (tools k))]"

definition state_dict :: "sim_state \<Rightarrow> (string \<times> json) list" where
  "state_dict st =
     [(''time'', JStr (time st)),
      (''scenarios_completed'', JInt (int (scenarios_completed st))),
      (''skills_demonstrated'', JArr (skills_demonstrated st)),
      (''current_scenario'',
         (case current_scenario st of None \<Rightarrow> JNull | Some t \<Rightarrow> JObj (turn_dict t)))]"

text \<open>The constructor. The key only configures the client.\<close>

definition MultiAgentCareerSimulator :: "string \<Rightarrow> simulator" where
  "MultiAgentCareerSimulator api_key =
     (let model_name = ''nvidia/nvidia-nemotron-nano-9b-v2'' in
      \<lparr>research_agent = \<lparr>cls = CareerResearchAgent, model = model_name, role = ''Research''\<rparr>,
       scenario_agent =
         \<lparr>cls = ScenarioDesignerAgent, model = model_name, role = ''Scenario Designer''\<rparr>,
       evaluator = \<lparr>cls = EvaluationAgent, model = model_name, role = ''Evaluator''\<rparr>,
       narrator = \<lparr>cls = NarratorAgent, model = model_name, role = ''Narrator''\<rparr>,
       career_knowledge = None,
       simulation_state =
         \<lparr>time = ''9:00 AM'', scenarios_completed = 0, skills_demonstrated = [],
          current_scenario = None\<rparr>,
       agent_log = []\<rparr>)"

text \<open>
  The operations take the number of model calls made so far and return it updated,
  next to the simulator as they leave it. What they print is not modelled.
\<close>

definition start_simulation ::
  "env \<Rightarrow> string \<Rightarrow> simulator \<Rightarrow> nat \<Rightarrow> string \<times> simulator \<times> nat" where
  "start_simulation e career_name s n =
     (let (research_result, n1) =
            think_and_act e (research_agent s)
              (''Do we have enough information to simulate a day as a '' @ career_name @
               ''? What do we need to know?'')
              (Some [(''career'', JStr career_name)]) n;
          s1 = s\<lparr>agent_log := agent_log s @ [research_result]\<rparr>;
          k = \<lparr>career = career_name, researched = True,
               typical_challenges = ''Common challenges for '' @ career_name,
               tools = ''Tools used in '' @ career_name\<rparr>;
          s2 = s1\<lparr>career_knowledge := Some k\<rparr>;
          (scenario_result, n2) =
            think_and_act e (scenario_agent s2)
              (''Design an engaging opening scenario for a '' @ career_name @
               [CHR 0x27] @ ''s day at 9 AM'')
              (Some (knowledge_dict k)) n1;
          s3 = s2\<lparr>agent_log := agent_log s2 @ [scenario_result]\<rparr>;
          (narrative_result, n3) =
            think_and_act e (narrator s3)
              (''Present this scenario engagingly: '' @ action scenario_result)
              (Some [(''career'', JStr career_name), (''time'', JStr ''9:00 AM'')]) n2;
          s4 = s3\<lparr>agent_log := agent_log s3 @ [narrative_result]\<rparr>;
          s5 = s4\<lparr>simulation_state :=
                    (simulation_state s4)\<lparr>current_scenario := Some scenario_result\<rparr>\<rparr>
      in (action narrative_result, s5, n3))"

definition times :: "string list" where
  "times = [''9:00 AM'', ''10:30 AM'', ''12:00 PM'', ''2:00 PM'', ''4:00 PM'', ''5:30 PM'']"

definition advance_time :: "simulator \<Rightarrow> string" where
  "advance_time s =
     (let idx = min (scenarios_completed (simulation_state s)) (length times - 1)
      in times ! idx)"

text \<open>
  The body of the \<^verbatim>\<open>try\<close> block of \<^verbatim>\<open>process_user_decision\<close>: the new value of
  \<^verbatim>\<open>skills_demonstrated\<close>, or the exception that one of its three calls raises.
\<close>

definition try_skills :: "env \<Rightarrow> string \<Rightarrow> json list \<Rightarrow> error + json list" where
  "try_skills e answer skills_list =
     (case json_loads e answer of
        None \<Rightarrow> Inl JSONDecodeError
      | Some eval_data \<Rightarrow>
          (case dict_get eval_data ''skills_used'' (JArr []) of
             Inl err \<Rightarrow> Inl err
           | Inr v \<Rightarrow> list_extend skills_list v))"

text \<open>
  \<^verbatim>\<open>self.career_knowledge["career"]\<close> raises \<^verbatim>\<open>KeyError\<close> on the empty dictionary,
  while the evaluator's context is built and before anything is changed. The bare
  \<^verbatim>\<open>except: pass\<close> swallows every exception of the \<^verbatim>\<open>try\<close> block.
\<close>

definition process_user_decision ::
  "env \<Rightarrow> string \<Rightarrow> simulator \<Rightarrow> nat \<Rightarrow> (error + string) \<times> simulator \<times> nat" where
  "process_user_decision e user_choice s n =
     (case career_knowledge s of
        None \<Rightarrow> (Inl KeyError, s, n)
      | Some k \<Rightarrow>
         (let (eval_result, n1) =
                think_and_act e (evaluator s)
                  (''User chose: '' @ [CHR 0x27] @ user_choice @ [CHR 0x27] @
                   ''. Evaluate this decision.'')
                  (Some [(''scenario'',
                            (case current_scenario (simulation_state s) of
                               None \<Rightarrow> JNull | Some t \<Rightarrow> JObj (turn_dict t))),
                         (''career'', JStr (career k))]) n;
              s1 = s\<lparr>agent_log := agent_log s @ [eval_result]\<rparr>;
              st1 = simulation_state s1;
              st2 = (case try_skills e (action eval_result) (skills_demonstrated st1) of
                       Inl err \<Rightarrow> st1
                     | Inr skills_list \<Rightarrow> st1\<lparr>skills_demonstrated := skills_list\<rparr>);
              st3 = st2\<lparr>scenarios_completed := scenarios_completed st2 + 1\<rparr>;
              s3 = s1\<lparr>simulation_state := st3\<rparr>;
              s4 = s3\<lparr>simulation_state := (simulation_state s3)\<lparr>time := advance_time s3\<rparr>\<rparr>;
              (next_scenario, n2) =
                think_and_act e (scenario_agent s4)
                  ''Create next scenario based on the consequence of user's choice''
                  (Some [(''previous_choice'', JStr user_choice),
                         (''consequence'', JStr (action eval_result)),
                         (''time'', JStr (time (simulation_state s4))),
                         (''career'', JStr (career k))]) n1;
              s5 = s4\<lparr>agent_log := agent_log s4 @ [next_scenario]\<rparr>;
              (narrative, n3) =
                think_and_act e (narrator s5)
                  ''Tell the story of what happened after their choice and introduce the new scenario''
                  (Some [(''choice'', JStr user_choice),
                         (''consequence'', JStr (action eval_result)),
                         (''next_scenario'', JStr (action next_scenario))]) n2;
              s6 = s5\<lparr>agent_log := agent_log s5 @ [narrative]\<rparr>;
              s7 = s6\<lparr>simulation_state :=
                        (simulation_state s6)\<lparr>current_scenario := Some next_scenario\<rparr>\<rparr>
          in (Inr (action narrative), s7, n3)))"

text \<open>The dictionary that \<^verbatim>\<open>generate_summary\<close> returns.\<close>

record summary_record =
  summary_career :: string
  summary_scenarios_completed :: nat
  skills :: "json list"
  summary :: string
  agent_interactions :: nat

text \<open>
  Both turns are made before the returned dictionary is built; building it raises
  \<^verbatim>\<open>KeyError\<close> when \<^verbatim>\<open>career_knowledge\<close> is empty and \<^verbatim>\<open>TypeError\<close> when a recorded
  skill is not hashable. Nothing is assigned to the simulator.
\<close>

definition generate_summary ::
  "env \<Rightarrow> simulator \<Rightarrow> nat \<Rightarrow> (error + summary_record) \<times> simulator \<times> nat" where
  "generate_summary e s n =
     (let (eval_summary, n1) =
            think_and_act e (evaluator s)
              ''Summarize the skills and decisions demonstrated''
              (Some (state_dict (simulation_state s))) n;
          (narrative_summary, n2) =
            think_and_act e (narrator s)
              ''Create an engaging summary of the career day experience''
              (Some [(''state'', JObj (state_dict (simulation_state s))),
                     (''evaluation'', JStr (action eval_summary))]) n1
      in (case career_knowledge s of
            None \<Rightarrow> (Inl KeyError, s, n2)
          | Some k \<Rightarrow>
              (case list_set (skills_demonstrated (simulation_state s)) of
                 Inl err \<Rightarrow> (Inl err, s, n2)
               | Inr skill_list \<Rightarrow>
                   (Inr \<lparr>summary_career = career k,
                         summary_scenarios_completed = scenarios_completed (simulation_state s),
                         skills = skill_list,
                         summary = action narrative_summary,
                         agent_interactions = length (agent_log s)\<rparr>,
                    s, n2))))"

definition get_agent_log :: "simulator \<Rightarrow> turn list" where
  "get_agent_log s = agent_log s"

text \<open>
  A session is a sequence of calls made by a frontend. An exception ends the call that
  raised it and leaves the simulator as it was at that point.
\<close>

datatype operation = Start string | Decide string | Summarise

fun apply_operation :: "env \<Rightarrow> operation \<Rightarrow> simulator \<times> nat \<Rightarrow> simulator \<times> nat" where
  "apply_operation e (Start c) (s, n) = snd (start_simulation e c s n)"
| "apply_operation e (Decide u) (s, n) = snd (process_user_decision e u s n)"
| "apply_operation e Summarise (s, n) = snd (generate_summary e s n)"

definition run :: "env \<Rightarrow> operation list \<Rightarrow> simulator \<times> nat \<Rightarrow> simulator \<times> nat" where
  "run e ops sn = foldl (\<lambda>acc x. apply_operation e x acc) sn ops"

text \<open>
  The evaluator's turn of a decision, read back from the log: the first entry that the
  call appends.
\<close>

definition evaluator_turn :: "env \<Rightarrow> string \<Rightarrow> simulator \<Rightarrow> nat \<Rightarrow> turn" where
  "evaluator_turn e u s n =
     agent_log (fst (snd (process_user_decision e u s n))) ! length (agent_log s)"

fun is_str :: "json \<Rightarrow> bool" where
  "is_str (JStr t) = True"
| "is_str _ = False"

section \<open>An example session\<close>

text \<open>
  An endpoint whose fourth answer, the evaluator's first, is a JSON object that lists
  the same skill twice and arrives in two chunks; every other answer is prose. The
  decoder knows that one text.
\<close>

definition example_env :: env where
  \<open>example_env =
     \<lparr>json_dumps = (\<lambda>v. ''{}''),
      json_loads = (\<lambda>t.
        if t = ''{"skills_used": ["teamwork", "teamwork"]}''
        then Some (JObj [(''skills_used'', JArr [JStr ''teamwork'', JStr ''teamwork''])])
        else None),
      completions_create = (\<lambda>n m msgs.
        if n = 3
        then [\<lparr>reasoning_content = Some ''They delegate.'', content = Some ''{"skills_used": ''\<rparr>,
              \<lparr>reasoning_content = None, content = Some ''["teamwork", "teamwork"]}''\<rparr>]
        else [\<lparr>reasoning_content = None, content = Some ''The kitchen is busy.''\<rparr>]),
      datetime_now = (\<lambda>n. ''2025-01-01T09:00:00'')\<rparr>\<close>

definition example_started :: "simulator \<times> nat" where
  "example_started = run example_env [Start ''Chef''] (MultiAgentCareerSimulator ''key'', 0)"

definition example_decided :: "simulator \<times> nat" where
  "example_decided =
     run example_env [Start ''Chef'', Decide ''Ask the sous-chef''] (MultiAgentCareerSimulator ''key'', 0)"

text \<open>
  An endpoint that answers every exchange with the text of its user message, in one
  chunk, and a serialiser that writes every context as \<open>{"k": null}\<close>.
\<close>

definition echo_env :: env where
  \<open>echo_env =
     \<lparr>json_dumps = (\<lambda>v. ''{"k": null}''),
      json_loads = (\<lambda>t. None),
      completions_create = (\<lambda>n m msgs.
        (case msgs of
           [system_message, user_message] \<Rightarrow>
             [\<lparr>reasoning_content = None, content = map_of user_message ''content''\<rparr>]
         | _ \<Rightarrow> [])),
      datetime_now = (\<lambda>n. ''2025-01-01T09:00:00'')\<rparr>\<close>

section \<open>The turn executor\<close>

lemma accumulate_concat:
  "accumulate chunks r c =
     (r @ concat (map (\<lambda>d. case reasoning_content d of None \<Rightarrow> [] | Some t \<Rightarrow> t) chunks),
      c @ concat (map (\<lambda>d. case content d of None \<Rightarrow> [] | Some t \<Rightarrow> t) chunks))"
  by (induction chunks arbitrary: r c) (auto simp: Let_def split: option.splits)

lemma think_and_act_tick: "snd (think_and_act e a p c n) = Suc n"
  by (simp add: think_and_act_def Let_def)

text \<open>
  Claim C8. For every agent, task text and context, and whatever the endpoint does, the
  turn executor calls the endpoint once, with the agent's model name and an exchange of
  two messages: the system prompt of the agent's class, and a user message. The user
  message is the task text alone when the context is absent or the empty dictionary;
  otherwise it is \<open>Context: \<close>, the serialised context, a blank line, \<open>Task: \<close> and the
  task text. The turn it returns is read off the answer to exactly that exchange.
\<close>

theorem user_message_format:
  "think_and_act e a prompt context n =
     (let user_message =
            (case context of
               None \<Rightarrow> prompt
             | Some [] \<Rightarrow> prompt
             | Some (kv # kvs) \<Rightarrow>
                 ''Context: '' @ json_dumps e (JObj (kv # kvs)) @ [CHR 0x0A, CHR 0x0A] @
                 ''Task: '' @ prompt);
          completion =
            completions_create e n (model a)
              [[(''role'', ''system''), (''content'', get_system_prompt (cls a))],
               [(''role'', ''user''), (''content'', user_message)]];
          response = accumulate completion [] []
      in (\<lparr>agent = role a, reasoning = fst response, action = snd response,
            timestamp = datetime_now e n\<rparr>,
          Suc n))"
  by (simp add: think_and_act_def call_model_def build_messages_def format_prompt_def Let_def
      split: option.split list.split)

text \<open>
  With the echoing endpoint the user message comes back as the turn's action, in each of
  the three cases of the context.
\<close>

theorem user_message_format_witness:
  \<open>action (fst (think_and_act echo_env
      \<lparr>cls = NarratorAgent, model = ''m'', role = ''Narrator''\<rparr>
      ''Tell the story'' (Some [(''k'', JNull)]) 0)) =
     ''Context: {"k": null}'' @ [CHR 0x0A, CHR 0x0A] @ ''Task: Tell the story'' \<and>
   action (fst (think_and_act echo_env
      \<lparr>cls = NarratorAgent, model = ''m'', role = ''Narrator''\<rparr>
      ''Tell the story'' (Some []) 0)) = ''Tell the story'' \<and>
   action (fst (think_and_act echo_env
      \<lparr>cls = NarratorAgent, model = ''m'', role = ''Narrator''\<rparr>
      ''Tell the story'' None 0)) = ''Tell the story''\<close>
  using
    user_message_format [of echo_env "\<lparr>cls = NarratorAgent, model = ''m'', role = ''Narrator''\<rparr>"
      "''Tell the story''" "Some [(''k'', JNull)]" 0]
    user_message_format [of echo_env "\<lparr>cls = NarratorAgent, model = ''m'', role = ''Narrator''\<rparr>"
      "''Tell the story''" "Some []" 0]
    user_message_format [of echo_env "\<lparr>cls = NarratorAgent, model = ''m'', role = ''Narrator''\<rparr>"
      "''Tell the story''" None 0]
  by (simp add: echo_env_def Let_def)

text \<open>
  Claim C9. Whatever chunks the endpoint streams back for the submitted exchange, the
  turn's \<open>agent\<close> is the agent's role name, its \<open>reasoning\<close> is the concatenation, in
  arrival order, of the reasoning deltas (a missing one adding nothing) and its \<open>action\<close>
  is the concatenation of the answer deltas. The caller receives this one record and
  nothing before it.
\<close>

theorem think_and_act_result:
  "agent (fst (think_and_act e a prompt context n)) = role a \<and>
   reasoning (fst (think_and_act e a prompt context n)) =
     concat (map (\<lambda>d. case reasoning_content d of None \<Rightarrow> [] | Some t \<Rightarrow> t)
       (completions_create e n (model a) (build_messages e a prompt context))) \<and>
   action (fst (think_and_act e a prompt context n)) =
     concat (map (\<lambda>d. case content d of None \<Rightarrow> [] | Some t \<Rightarrow> t)
       (completions_create e n (model a) (build_messages e a prompt context)))"
  by (simp add: think_and_act_def call_model_def Let_def accumulate_concat)

section \<open>Effect of each operation on the simulator\<close>

lemma fresh_fields:
  "career_knowledge (MultiAgentCareerSimulator key) = None"
  "agent_log (MultiAgentCareerSimulator key) = []"
  "simulation_state (MultiAgentCareerSimulator key) =
     \<lparr>time = ''9:00 AM'', scenarios_completed = 0, skills_demonstrated = [],
      current_scenario = None\<rparr>"
  by (simp_all add: MultiAgentCareerSimulator_def Let_def)

lemma start_log_length:
  "length (agent_log (fst (snd (start_simulation e c s n)))) = length (agent_log s) + 3"
  by (simp add: start_simulation_def Let_def split_def)

lemma start_knowledge:
  "career_knowledge (fst (snd (start_simulation e c s n))) =
     Some \<lparr>career = c, researched = True,
           typical_challenges = ''Common challenges for '' @ c,
           tools = ''Tools used in '' @ c\<rparr>"
  by (simp add: start_simulation_def Let_def split_def)

lemma start_counter:
  "scenarios_completed (simulation_state (fst (snd (start_simulation e c s n)))) =
     scenarios_completed (simulation_state s)"
  by (simp add: start_simulation_def Let_def split_def)

lemma start_time:
  "time (simulation_state (fst (snd (start_simulation e c s n)))) = time (simulation_state s)"
  by (simp add: start_simulation_def Let_def split_def)

lemma advance_time_eq:
  "advance_time s = times ! min (scenarios_completed (simulation_state s)) 5"
  by (simp add: advance_time_def times_def eval_nat_numeral)

lemma decide_raises:
  "career_knowledge s = None \<Longrightarrow> process_user_decision e u s n = (Inl KeyError, s, n)"
  by (simp add: process_user_decision_def)

lemma decide_returns:
  "career_knowledge s = Some k \<Longrightarrow> \<exists>out. fst (process_user_decision e u s n) = Inr out"
  by (simp add: process_user_decision_def Let_def split_def)

lemma decide_knowledge:
  "career_knowledge (fst (snd (process_user_decision e u s n))) = career_knowledge s"
  by (cases "career_knowledge s") (simp_all add: process_user_decision_def Let_def split_def)

lemma decide_log_length:
  "career_knowledge s = Some k \<Longrightarrow>
   length (agent_log (fst (snd (process_user_decision e u s n)))) = length (agent_log s) + 3"
  by (simp add: process_user_decision_def Let_def split_def)

lemma decide_counter:
  "career_knowledge s = Some k \<Longrightarrow>
   scenarios_completed (simulation_state (fst (snd (process_user_decision e u s n)))) =
     scenarios_completed (simulation_state s) + 1"
  by (simp add: process_user_decision_def Let_def split_def split: sum.split)

lemma decide_time:
  "career_knowledge s = Some k \<Longrightarrow>
   time (simulation_state (fst (snd (process_user_decision e u s n)))) =
     times ! min (scenarios_completed (simulation_state s) + 1) 5"
  by (simp add: process_user_decision_def advance_time_eq Let_def split_def split: sum.split)

lemma summary_frame: "fst (snd (generate_summary e s n)) = s"
  by (simp add: generate_summary_def Let_def split_def split: option.splits sum.splits)

section \<open>Sessions\<close>

lemma run_Nil: "run e [] sn = sn"
  by (simp add: run_def)

lemma run_snoc: "run e (ops @ [x]) sn = apply_operation e x (run e ops sn)"
  by (simp add: run_def)

lemma run_Cons: "run e (x # ops) sn = run e ops (apply_operation e x sn)"
  by (simp add: run_def)

lemma apply_knowledge:
  "career_knowledge (fst sn) \<noteq> None \<Longrightarrow>
   career_knowledge (fst (apply_operation e x sn)) \<noteq> None"
  by (cases sn; cases x) (simp_all add: start_knowledge decide_knowledge summary_frame)

lemma run_knowledge:
  "career_knowledge (fst sn) \<noteq> None \<Longrightarrow> career_knowledge (fst (run e ops sn)) \<noteq> None"
  by (induction ops rule: rev_induct) (simp_all add: run_Nil run_snoc apply_knowledge)

lemma started_knowledge:
  "career_knowledge (fst (run e (Start c # ops) sn)) \<noteq> None"
  by (cases sn) (simp add: run_Cons run_knowledge start_knowledge)

text \<open>
  Once the simulation has been started, the counter and the clock label move together
  through any number of decisions.
\<close>

lemma decisions_state:
  assumes "career_knowledge s \<noteq> None"
    and "time (simulation_state s) = times ! min (scenarios_completed (simulation_state s)) 5"
  shows "scenarios_completed (simulation_state (fst (run e (map Decide choices) (s, n)))) =
           scenarios_completed (simulation_state s) + length choices \<and>
         time (simulation_state (fst (run e (map Decide choices) (s, n)))) =
           times ! min (scenarios_completed (simulation_state s) + length choices) 5"
proof (induction choices rule: rev_induct)
  case Nil
  show ?case using assms(2) by (simp add: run_Nil)
next
  case (snoc u choices)
  obtain s' n' where r: "run e (map Decide choices) (s, n) = (s', n')"
    by (cases "run e (map Decide choices) (s, n)")
  have "career_knowledge (fst (run e (map Decide choices) (s, n))) \<noteq> None"
    using assms(1) by (simp add: run_knowledge)
  then obtain k where k: "career_knowledge s' = Some k"
    using r by auto
  have c: "scenarios_completed (simulation_state s') =
           scenarios_completed (simulation_state s) + length choices"
    using snoc r by simp
  show ?case
    using r c by (simp add: run_snoc decide_counter [OF k] decide_time [OF k])
qed

text \<open>
  Claim C1. A fresh orchestrator is started and then takes any sequence of decisions,
  whatever the endpoint answers. Afterwards \<open>scenarios_completed\<close> is the number of
  decisions and \<open>time\<close> is the label at index \<open>min N 5\<close> of the six fixed labels.
\<close>

theorem decisions_counter_and_time:
  "scenarios_completed (simulation_state (fst (run e (Start c # map Decide choices)
      (MultiAgentCareerSimulator key, n)))) = length choices \<and>
   time (simulation_state (fst (run e (Start c # map Decide choices)
      (MultiAgentCareerSimulator key, n)))) =
     [''9:00 AM'', ''10:30 AM'', ''12:00 PM'', ''2:00 PM'', ''4:00 PM'', ''5:30 PM'']
       ! min (length choices) 5"
proof -
  define s where "s = fst (snd (start_simulation e c (MultiAgentCareerSimulator key) n))"
  define m where "m = snd (snd (start_simulation e c (MultiAgentCareerSimulator key) n))"
  have r: "run e (Start c # map Decide choices) (MultiAgentCareerSimulator key, n) =
           run e (map Decide choices) (s, m)"
    by (simp add: run_Cons s_def m_def)
  have k: "career_knowledge s \<noteq> None"
    by (simp add: s_def start_knowledge)
  have z: "scenarios_completed (simulation_state s) = 0"
    by (simp add: s_def start_counter fresh_fields)
  have t: "time (simulation_state s) = times ! min (scenarios_completed (simulation_state s)) 5"
    by (simp add: s_def start_time start_counter fresh_fields times_def)
  show ?thesis
    using decisions_state [OF k t, of e choices m] z by (simp add: r times_def)
qed

text \<open>
  Claim C4. Whatever the endpoint answers, the log of a fresh orchestrator has three
  entries after \<open>start_simulation\<close>, and every call of \<open>process_user_decision\<close> made
  later in the session, after any further operations, adds exactly three.
\<close>

theorem log_length_start_and_decision:
  "length (agent_log (fst (snd (start_simulation e c (MultiAgentCareerSimulator key) n)))) = 3 \<and>
   length (agent_log (fst (snd (process_user_decision e u
      (fst (run e (Start c # ops) (MultiAgentCareerSimulator key, n)))
      (snd (run e (Start c # ops) (MultiAgentCareerSimulator key, n))))))) =
     length (agent_log (fst (run e (Start c # ops) (MultiAgentCareerSimulator key, n)))) + 3"
proof -
  have "career_knowledge (fst (run e (Start c # ops) (MultiAgentCareerSimulator key, n))) \<noteq> None"
    by (rule started_knowledge)
  then obtain k where
    "career_knowledge (fst (run e (Start c # ops) (MultiAgentCareerSimulator key, n))) = Some k"
    by auto
  then show ?thesis
    by (simp add: decide_log_length start_log_length fresh_fields)
qed

text \<open>
  Claim C7. \<open>start_simulation\<close> sets \<open>career_knowledge\<close> to the four-field record built
  from the career string alone, whatever the research turn answered, and neither
  \<open>process_user_decision\<close> nor \<open>generate_summary\<close> changes it.
\<close>

theorem career_knowledge_fixed:
  "career_knowledge (fst (snd (start_simulation e c s n))) =
     Some \<lparr>career = c, researched = True,
           typical_challenges = ''Common challenges for '' @ c,
           tools = ''Tools used in '' @ c\<rparr> \<and>
   career_knowledge (fst (snd (process_user_decision e u s' n'))) = career_knowledge s' \<and>
   career_knowledge (fst (snd (generate_summary e s' n'))) = career_knowledge s'"
  by (simp add: start_knowledge decide_knowledge summary_frame)

text \<open>
  Claim C10. \<open>generate_summary\<close> leaves the simulator as it found it: \<open>time\<close>,
  \<open>scenarios_completed\<close>, \<open>current_scenario\<close>, \<open>career_knowledge\<close> and
  \<open>skills_demonstrated\<close>, duplicates included, are what they were before the call.
\<close>

theorem generate_summary_frame:
  "fst (snd (generate_summary e s n)) = s \<and>
   time (simulation_state (fst (snd (generate_summary e s n)))) = time (simulation_state s) \<and>
   scenarios_completed (simulation_state (fst (snd (generate_summary e s n)))) =
     scenarios_completed (simulation_state s) \<and>
   current_scenario (simulation_state (fst (snd (generate_summary e s n)))) =
     current_scenario (simulation_state s) \<and>
   career_knowledge (fst (snd (generate_summary e s n))) = career_knowledge s \<and>
   skills_demonstrated (simulation_state (fst (snd (generate_summary e s n)))) =
     skills_demonstrated (simulation_state s)"
  by (simp add: summary_frame)

section \<open>Monotonicity of the scenario counter\<close>

lemma apply_counter_mono:
  "scenarios_completed (simulation_state (fst sn)) \<le>
   scenarios_completed (simulation_state (fst (apply_operation e x sn)))"
proof (cases sn)
  case (Pair s n)
  show ?thesis
  proof (cases x)
    case (Start c)
    with Pair show ?thesis by (simp add: start_counter)
  next
    case (Decide u)
    show ?thesis
    proof (cases "career_knowledge s")
      case None
      with Pair Decide show ?thesis by (simp add: decide_raises)
    next
      case (Some k)
      with Pair Decide show ?thesis by (simp add: decide_counter)
    qed
  next
    case Summarise
    with Pair show ?thesis by (simp add: summary_frame)
  qed
qed

lemma run_counter_mono:
  "scenarios_completed (simulation_state (fst sn)) \<le>
   scenarios_completed (simulation_state (fst (run e ops sn)))"
proof (induction ops rule: rev_induct)
  case Nil
  show ?case by (simp add: run_Nil)
next
  case (snoc x ops)
  have "scenarios_completed (simulation_state (fst (run e ops sn))) \<le>
        scenarios_completed (simulation_state (fst (apply_operation e x (run e ops sn))))"
    by (rule apply_counter_mono)
  with snoc show ?case by (simp add: run_snoc)
qed

section \<open>The example session, evaluated\<close>

lemmas session_defs = run_def start_simulation_def process_user_decision_def generate_summary_def
  think_and_act_def call_model_def build_messages_def format_prompt_def Let_def split_def
  MultiAgentCareerSimulator_def example_env_def try_skills_def list_extend_def
  advance_time_def times_def knowledge_dict_def turn_dict_def state_dict_def

lemma example_started_eval:
  "career_knowledge (fst example_started) =
     Some \<lparr>career = ''Chef'', researched = True,
           typical_challenges = ''Common challenges for Chef'',
           tools = ''Tools used in Chef''\<rparr>"
  "length (agent_log (fst example_started)) = 3"
  "snd example_started = 3"
  "scenarios_completed (simulation_state (fst example_started)) = 0"
  "skills_demonstrated (simulation_state (fst example_started)) = []"
  by (simp_all add: example_started_def session_defs)

lemma example_decided_eval:
  "career_knowledge (fst example_decided) =
     Some \<lparr>career = ''Chef'', researched = True,
           typical_challenges = ''Common challenges for Chef'',
           tools = ''Tools used in Chef''\<rparr>"
  "length (agent_log (fst example_decided)) = 6"
  "snd example_decided = 6"
  "scenarios_completed (simulation_state (fst example_decided)) = 1"
  "skills_demonstrated (simulation_state (fst example_decided)) =
     [JStr ''teamwork'', JStr ''teamwork'']"
  by (simp_all add: example_decided_def session_defs)

text \<open>
  Claim C6. Across any sequence of operations, from any state, \<open>scenarios_completed\<close>
  never decreases. \<open>start_simulation\<close> and \<open>generate_summary\<close> leave it as it is, and a
  call of \<open>process_user_decision\<close> that returns adds exactly one. The call returns
  exactly when the simulation has been started; before that it raises \<open>KeyError\<close>
  ahead of every assignment.
\<close>

theorem scenarios_completed_monotone:
  "scenarios_completed (simulation_state s) \<le>
     scenarios_completed (simulation_state (fst (run e ops (s, n)))) \<and>
   scenarios_completed (simulation_state (fst (snd (start_simulation e c s n)))) =
     scenarios_completed (simulation_state s) \<and>
   scenarios_completed (simulation_state (fst (snd (generate_summary e s n)))) =
     scenarios_completed (simulation_state s) \<and>
   (\<forall>out. fst (process_user_decision e u s n) = Inr out \<longrightarrow>
      scenarios_completed (simulation_state (fst (snd (process_user_decision e u s n)))) =
        scenarios_completed (simulation_state s) + 1) \<and>
   ((\<exists>out. fst (process_user_decision e u s n) = Inr out) \<longleftrightarrow> career_knowledge s \<noteq> None)"
proof -
  have m: "scenarios_completed (simulation_state s) \<le>
     scenarios_completed (simulation_state (fst (run e ops (s, n))))"
    using run_counter_mono [of "(s, n)" e ops] by simp
  have d: "scenarios_completed (simulation_state (fst (snd (process_user_decision e u s n)))) =
        scenarios_completed (simulation_state s) + 1"
    if "fst (process_user_decision e u s n) = Inr out" for out
  proof (cases "career_knowledge s")
    case None
    with that show ?thesis by (simp add: decide_raises)
  next
    case (Some k)
    then show ?thesis by (rule decide_counter)
  qed
  have r: "(\<exists>out. fst (process_user_decision e u s n) = Inr out) \<longleftrightarrow> career_knowledge s \<noteq> None"
  proof (cases "career_knowledge s")
    case None
    then show ?thesis by (simp add: decide_raises)
  next
    case (Some k)
    then show ?thesis using decide_returns [OF Some, of e u n] by simp
  qed
  show ?thesis
    using m d r by (simp add: start_counter summary_frame)
qed

theorem scenarios_completed_monotone_witness:
  "(\<exists>out. fst (process_user_decision example_env ''Ask the sous-chef'' (fst example_started) 3)
      = Inr out) \<and>
   scenarios_completed (simulation_state (fst example_started)) = 0 \<and>
   scenarios_completed (simulation_state (fst (snd
     (process_user_decision example_env ''Ask the sous-chef'' (fst example_started) 3)))) = 1"
  using scenarios_completed_monotone [of "fst example_started" example_env "[]" 3 "''Chef''" "''Ask the sous-chef''"]
  by (auto simp: example_started_eval)

section \<open>The summary\<close>

lemma list_ex_py_eq: "list_ex (\<lambda>y. py_eq y x) s \<longleftrightarrow> py_key x \<in> py_key ` set s"
proof -
  have "(\<exists>y\<in>set s. py_key y = py_key x) \<longleftrightarrow> py_key x \<in> py_key ` set s"
    by (metis image_iff)
  then show ?thesis
    by (simp add: list_ex_iff py_eq_def)
qed

lemma set_add_distinct:
  "distinct (map py_key s) \<Longrightarrow> distinct (map py_key (set_add s x))"
  by (simp add: set_add_def list_ex_py_eq)

lemma set_add_keys: "py_key ` set (set_add s x) = insert (py_key x) (py_key ` set s)"
  by (auto simp: set_add_def list_ex_py_eq)

lemma set_add_subset: "set (set_add s x) \<subseteq> insert x (set s)"
  by (auto simp: set_add_def)

lemma foldl_set_add_distinct:
  "distinct (map py_key acc) \<Longrightarrow> distinct (map py_key (foldl set_add acc xs))"
  by (induction xs arbitrary: acc) (simp_all add: set_add_distinct)

lemma foldl_set_add_keys:
  "py_key ` set (foldl set_add acc xs) = py_key ` set acc \<union> py_key ` set xs"
  by (induction xs arbitrary: acc) (auto simp: set_add_keys)

lemma foldl_set_add_subset: "set (foldl set_add acc xs) \<subseteq> set acc \<union> set xs"
proof (induction xs arbitrary: acc)
  case Nil
  show ?case by simp
next
  case (Cons x xs)
  have "set (foldl set_add (set_add acc x) xs) \<subseteq> set (set_add acc x) \<union> set xs"
    by (rule Cons.IH)
  also have "\<dots> \<subseteq> insert x (set acc) \<union> set xs"
    using set_add_subset [of acc x] by auto
  finally show ?case by auto
qed

lemma py_key_str: "is_str x \<Longrightarrow> py_key x = x"
  by (cases x) simp_all

lemma list_set_props:
  assumes "list_set xs = Inr ys"
  shows "distinct (map py_key ys)" and "set ys \<subseteq> set xs"
    and "py_key ` set ys = py_key ` set xs"
proof -
  have ys: "ys = foldl set_add [] xs"
    using assms by (simp add: list_set_def split: if_splits)
  show "distinct (map py_key ys)"
    unfolding ys by (rule foldl_set_add_distinct) simp
  show "set ys \<subseteq> set xs"
    unfolding ys using foldl_set_add_subset [of "[]" xs] by simp
  show "py_key ` set ys = py_key ` set xs"
    unfolding ys by (simp add: foldl_set_add_keys)
qed

lemma list_set_strings:
  assumes "list_set xs = Inr ys" and "list_all is_str xs"
  shows "set ys = set xs"
proof
  show "set ys \<subseteq> set xs" by (rule list_set_props(2) [OF assms(1)])
  show "set xs \<subseteq> set ys"
  proof
    fix x assume x: "x \<in> set xs"
    then have "py_key x \<in> py_key ` set ys"
      using list_set_props(3) [OF assms(1)] by auto
    then obtain y where y: "y \<in> set ys" "py_key y = py_key x" by auto
    have "y \<in> set xs" using y(1) list_set_props(2) [OF assms(1)] by auto
    then have "is_str y" "is_str x" using assms(2) x by (auto simp: list_all_iff)
    then have "y = x" using y(2) by (simp add: py_key_str)
    then show "x \<in> set ys" using y(1) by simp
  qed
qed

lemma summary_result:
  assumes "career_knowledge s = Some k"
    and "list_set (skills_demonstrated (simulation_state s)) = Inr ys"
  shows "fst (generate_summary e s n) =
    Inr \<lparr>summary_career = career k,
         summary_scenarios_completed = scenarios_completed (simulation_state s),
         skills = ys,
         summary = action (fst (think_and_act e (narrator s)
              ''Create an engaging summary of the career day experience''
              (Some [(''state'', JObj (state_dict (simulation_state s))),
                     (''evaluation'', JStr (action (fst (think_and_act e (evaluator s)
              ''Summarize the skills and decisions demonstrated''
              (Some (state_dict (simulation_state s))) n))))]) (Suc n))),
         agent_interactions = length (agent_log s)\<rparr>"
  using assms by (simp add: generate_summary_def Let_def split_def think_and_act_tick)

lemma summary_Inr:
  assumes "fst (generate_summary e s n) = Inr r"
  shows "agent_interactions r = length (agent_log s)"
    and "list_set (skills_demonstrated (simulation_state s)) = Inr (skills r)"
    and "career_knowledge s \<noteq> None"
  using assms
  by (auto simp add: generate_summary_def Let_def split_def split: option.splits sum.splits)

lemma summary_raises:
  "career_knowledge s = None \<Longrightarrow> fst (generate_summary e s n) = Inl KeyError"
  "career_knowledge s = Some k \<Longrightarrow>
   \<not> list_all hashable (skills_demonstrated (simulation_state s)) \<Longrightarrow>
   fst (generate_summary e s n) = Inl TypeError"
  by (simp_all add: generate_summary_def list_set_def Let_def split_def)

text \<open>
  Claim C5. Whenever \<open>generate_summary\<close> returns a record, which it does exactly when
  the simulation has been started and every recorded skill is hashable, the \<open>skills\<close>
  of the record hold no entry twice, not even two entries that Python compares equal;
  they are entries of \<open>skills_demonstrated\<close> and cover it up to Python's equality.
  When the recorded skills are strings, they are exactly the distinct elements of
  \<open>skills_demonstrated\<close>.
\<close>

theorem summary_skills_deduplicated:
  assumes "career_knowledge s = Some k"
    and "list_all hashable (skills_demonstrated (simulation_state s))"
  shows "\<exists>r. fst (generate_summary e s n) = Inr r \<and>
           distinct (skills r) \<and>
           distinct (map py_key (skills r)) \<and>
           set (skills r) \<subseteq> set (skills_demonstrated (simulation_state s)) \<and>
           py_key ` set (skills r) = py_key ` set (skills_demonstrated (simulation_state s)) \<and>
           (list_all is_str (skills_demonstrated (simulation_state s)) \<longrightarrow>
              set (skills r) = set (skills_demonstrated (simulation_state s)))"
proof -
  obtain ys where ys: "list_set (skills_demonstrated (simulation_state s)) = Inr ys"
    using assms(2) by (simp add: list_set_def)
  obtain r where r: "fst (generate_summary e s n) = Inr r" and sk: "skills r = ys"
    using summary_result [OF assms(1) ys, of e n] by simp
  have d: "distinct (map py_key ys)" by (rule list_set_props(1) [OF ys])
  then have "distinct ys" by (rule distinct_map [THEN iffD1, THEN conjunct1])
  show ?thesis
    using r sk d \<open>distinct ys\<close> list_set_props(2,3) [OF ys] list_set_strings [OF ys]
    by auto
qed

theorem summary_skills_deduplicated_witness:
  "career_knowledge (fst example_decided) =
     Some \<lparr>career = ''Chef'', researched = True,
           typical_challenges = ''Common challenges for Chef'',
           tools = ''Tools used in Chef''\<rparr> \<and>
   skills_demonstrated (simulation_state (fst example_decided)) =
     [JStr ''teamwork'', JStr ''teamwork''] \<and>
   list_all hashable (skills_demonstrated (simulation_state (fst example_decided))) \<and>
   (\<exists>r. fst (generate_summary example_env (fst example_decided) 6) = Inr r \<and>
        distinct (skills r) \<and> set (skills r) = {JStr ''teamwork''})"
proof -
  have h: "list_all hashable (skills_demonstrated (simulation_state (fst example_decided)))"
    by (simp add: example_decided_eval)
  have t: "list_all is_str (skills_demonstrated (simulation_state (fst example_decided)))"
    by (simp add: example_decided_eval)
  show ?thesis
    using summary_skills_deduplicated [OF example_decided_eval(1) h, of example_env 6] t h
    by (auto simp: example_decided_eval)
qed

lemma summary_calls: "snd (snd (generate_summary e s n)) = Suc (Suc n)"
  by (simp add: generate_summary_def Let_def split_def think_and_act_tick
      split: option.splits sum.splits)

text \<open>
  Claim C2. \<open>generate_summary\<close> makes two turns, the evaluator's and the narrator's, and
  appends neither to the log, unlike every turn of \<open>start_simulation\<close> and
  \<open>process_user_decision\<close>. In the example session, started and then summarised, the
  endpoint has been called five times when the summary returns, while the log has the
  three entries it had before the call, and the record reports three interactions. The
  log has not grown by two.
\<close>

theorem summary_turns_not_logged:
  "length (agent_log (fst example_started)) = 3 \<and>
   snd example_started = 3 \<and>
   snd (snd (generate_summary example_env (fst example_started) 3)) = 5 \<and>
   length (agent_log (fst (snd (generate_summary example_env (fst example_started) 3)))) = 3 \<and>
   length (agent_log (fst (snd (generate_summary example_env (fst example_started) 3)))) \<noteq>
     length (agent_log (fst example_started)) + 2 \<and>
   (\<exists>r. fst (generate_summary example_env (fst example_started) 3) = Inr r \<and>
        agent_interactions r = 3)"
proof -
  have "list_set (skills_demonstrated (simulation_state (fst example_started))) = Inr []"
    by (simp add: example_started_eval list_set_def)
  from summary_result [OF example_started_eval(1) this, of example_env 3]
  have "\<exists>r. fst (generate_summary example_env (fst example_started) 3) = Inr r \<and>
        agent_interactions r = 3"
    by (simp add: example_started_eval)
  then show ?thesis
    by (simp add: summary_frame summary_calls example_started_eval)
qed

section \<open>Skills recorded by a decision\<close>

lemma evaluator_turn_eq:
  assumes "career_knowledge s = Some k"
  shows "evaluator_turn e u s n =
    fst (think_and_act e (evaluator s)
          (''User chose: '' @ [CHR 0x27] @ u @ [CHR 0x27] @ ''. Evaluate this decision.'')
          (Some [(''scenario'',
                    (case current_scenario (simulation_state s) of
                       None \<Rightarrow> JNull | Some t \<Rightarrow> JObj (turn_dict t))),
                 (''career'', JStr (career k))]) n)"
  using assms
  by (simp add: evaluator_turn_def process_user_decision_def Let_def split_def nth_append)

lemma decide_skills:
  assumes "career_knowledge s = Some k"
  shows "skills_demonstrated (simulation_state (fst (snd (process_user_decision e u s n)))) =
    (case try_skills e (action (evaluator_turn e u s n))
            (skills_demonstrated (simulation_state s)) of
       Inl err \<Rightarrow> skills_demonstrated (simulation_state s)
     | Inr skills_list \<Rightarrow> skills_list)"
  unfolding evaluator_turn_eq [OF assms]
  using assms
  by (simp add: process_user_decision_def Let_def split_def split: sum.split)

text \<open>
  Claim C3. In a started simulation \<open>process_user_decision\<close> always returns the
  narrator's text, whatever the parse step did. When the evaluator's answer is not valid
  JSON, \<open>skills_demonstrated\<close> is what it was before the call. When the answer is a
  JSON object whose \<open>skills_used\<close> is a list, exactly the entries of that list are
  appended, in order.
\<close>

theorem skills_from_evaluator_answer:
  assumes "career_knowledge s = Some k"
  shows "(\<exists>out. fst (process_user_decision e u s n) = Inr out) \<and>
    agent (evaluator_turn e u s n) = role (evaluator s) \<and>
    (json_loads e (action (evaluator_turn e u s n)) = None \<longrightarrow>
       skills_demonstrated (simulation_state (fst (snd (process_user_decision e u s n)))) =
         skills_demonstrated (simulation_state s)) \<and>
    (\<forall>kvs xs.
       json_loads e (action (evaluator_turn e u s n)) = Some (JObj kvs) \<longrightarrow>
       map_of kvs ''skills_used'' = Some (JArr xs) \<longrightarrow>
       skills_demonstrated (simulation_state (fst (snd (process_user_decision e u s n)))) =
         skills_demonstrated (simulation_state s) @ xs)"
proof -
  have "agent (evaluator_turn e u s n) = role (evaluator s)"
    by (simp add: evaluator_turn_eq [OF assms] think_and_act_def Let_def)
  then show ?thesis
    using decide_returns [OF assms, of e u n]
    by (simp add: decide_skills [OF assms] try_skills_def list_extend_def)
qed

lemma example_answers:
  "json_loads example_env
     (action (evaluator_turn example_env ''Ask the sous-chef'' (fst example_started) 3)) =
   Some (JObj [(''skills_used'', JArr [JStr ''teamwork'', JStr ''teamwork''])])"
  "json_loads example_env
     (action (evaluator_turn example_env ''Wait'' (fst example_decided) 6)) = None"
  by (simp_all add: evaluator_turn_eq [OF example_started_eval(1)]
      evaluator_turn_eq [OF example_decided_eval(1)] think_and_act_def call_model_def
      Let_def example_env_def)

theorem skills_from_evaluator_answer_witness:
  "career_knowledge (fst example_started) =
     Some \<lparr>career = ''Chef'', researched = True,
           typical_challenges = ''Common challenges for Chef'',
           tools = ''Tools used in Chef''\<rparr> \<and>
   json_loads example_env
     (action (evaluator_turn example_env ''Ask the sous-chef'' (fst example_started) 3)) =
     Some (JObj [(''skills_used'', JArr [JStr ''teamwork'', JStr ''teamwork''])]) \<and>
   map_of [(''skills_used'', JArr [JStr ''teamwork'', JStr ''teamwork''])] ''skills_used'' =
     Some (JArr [JStr ''teamwork'', JStr ''teamwork'']) \<and>
   skills_demonstrated (simulation_state (fst (snd
       (process_user_decision example_env ''Ask the sous-chef'' (fst example_started) 3)))) =
     [JStr ''teamwork'', JStr ''teamwork''] \<and>
   career_knowledge (fst example_decided) =
     Some \<lparr>career = ''Chef'', researched = True,
           typical_challenges = ''Common challenges for Chef'',
           tools = ''Tools used in Chef''\<rparr> \<and>
   json_loads example_env
     (action (evaluator_turn example_env ''Wait'' (fst example_decided) 6)) = None \<and>
   skills_demonstrated (simulation_state (fst (snd
       (process_user_decision example_env ''Wait'' (fst example_decided) 6)))) =
     [JStr ''teamwork'', JStr ''teamwork''] \<and>
   (\<exists>out. fst (process_user_decision example_env ''Wait'' (fst example_decided) 6) = Inr out)"
  using skills_from_evaluator_answer [OF example_started_eval(1), of example_env "''Ask the sous-chef''" 3]
    skills_from_evaluator_answer [OF example_decided_eval(1), of example_env "''Wait''" 6]
  by (simp add: example_answers example_started_eval example_decided_eval)

end
